theory Spec2Isabelle
  imports Main "HOL-Library.Sublist" "HOL-Library.AList"
begin

section \<open>roomservice.py: device-tree resolution for a local manifest\<close>

text \<open>
  The development follows \<^verbatim>\<open>build/tools/roomservice.py\<close>. Python strings are
  \<^typ>\<open>string\<close>; exceptions the script can meet are values of \<open>error\<close>;
  the working tree and the standard output are an explicit state; everything the script
  asks of the outside world (HTTP, the environment, the \<^verbatim>\<open>re\<close> module, the
  \<^verbatim>\<open>repo\<close> tool) is a field of a \<open>host\<close> record.
\<close>

subsection \<open>String operations of the Python library\<close>

text \<open>\<^verbatim>\<open>s.index(c)\<close> for a one-character \<open>c\<close>: the position of the first
  occurrence; \<open>None\<close> stands for the \<^verbatim>\<open>ValueError\<close> Python raises.\<close>

fun index :: "string \<Rightarrow> char \<Rightarrow> nat option" where
  "index [] c = None"
| "index (x # xs) c = (if x = c then Some 0 else map_option Suc (index xs c))"

text \<open>\<^verbatim>\<open>s.split(c)\<close> with an explicit one-character separator: every occurrence
  separates, so empty pieces are kept and the result is never the empty list.\<close>

fun split :: "char \<Rightarrow> string \<Rightarrow> string list" where
  "split c [] = [[]]"
| "split c (x # xs) =
     (if x = c then [] # split c xs
      else (case split c xs of [] \<Rightarrow> [[x]] | w # ws \<Rightarrow> (x # w) # ws))"

text \<open>\<^verbatim>\<open>sep.join(xs)\<close>.\<close>

fun join :: "string \<Rightarrow> string list \<Rightarrow> string" where
  "join sep [] = []"
| "join sep [x] = x"
| "join sep (x # y # ys) = x @ sep @ join sep (y # ys)"

text \<open>\<^verbatim>\<open>s.replace(old, new)\<close>: all non-overlapping occurrences, leftmost first.
  For an empty \<open>old\<close> Python puts \<open>new\<close> before every character and at the end.\<close>

function replace :: "string \<Rightarrow> string \<Rightarrow> string \<Rightarrow> string" where
  "replace old new s =
     (if old = [] then new @ concat (map (\<lambda>c. c # new) s)
      else if prefix old s then new @ replace old new (drop (length old) s)
      else (case s of [] \<Rightarrow> [] | c # cs \<Rightarrow> c # replace old new cs))"
  by pat_completeness auto
termination
  by (relation "measure (\<lambda>(old, new, s). length s)") (auto simp: prefix_def)

declare replace.simps [simp del]

subsection \<open>Target resolver (lines 42--48)\<close>

text \<open>\<^verbatim>\<open>try: device = product[product.index("_") + 1:]  except: device = product\<close>\<close>

definition device :: "string \<Rightarrow> string" where
  "device product =
     (case index product (CHR ''_'') of
        Some i \<Rightarrow> drop (i + 1) product
      | None \<Rightarrow> product)"

subsection \<open>Exceptions\<close>

text \<open>The exception classes the script can meet. A function that may raise returns
  \<open>error + 'a\<close>, with \<open>Inl\<close> for the exception.\<close>

datatype error = URLError | ValueError | IndexError | AttributeError | TypeError | ParseError
  | re_error

subsection \<open>ElementTree\<close>

text \<open>An \<^verbatim>\<open>ElementTree.Element\<close>: a tag, the attribute dictionary in insertion order
  and the child elements. The \<^verbatim>\<open>text\<close> and \<^verbatim>\<open>tail\<close> white space, which is all
  that \<^verbatim>\<open>indent\<close> (lines 93--105) changes, is not part of the model.\<close>

datatype element = Element (tag: string) (attrib: "(string \<times> string) list") (children: "element list")

text \<open>\<^verbatim>\<open>elem.findall(t)\<close> and \<^verbatim>\<open>elem.find(t)\<close> for a plain tag name: the direct
  children with that tag, and the first of them.\<close>

definition findall :: "string \<Rightarrow> element \<Rightarrow> element list" where
  "findall t e = filter (\<lambda>c. tag c = t) (children e)"

definition find_elem :: "string \<Rightarrow> element \<Rightarrow> element option" where
  "find_elem t e = (case findall t e of [] \<Rightarrow> None | c # _ \<Rightarrow> Some c)"

text \<open>\<^verbatim>\<open>elem.get(k)\<close>, \<^verbatim>\<open>elem.set(k, v)\<close> and \<^verbatim>\<open>elem.append(c)\<close>.\<close>

definition get :: "element \<Rightarrow> string \<Rightarrow> string option" where
  "get e k = map_of (attrib e) k"

definition set_attr :: "element \<Rightarrow> string \<Rightarrow> string \<Rightarrow> element" where
  "set_attr e k v = Element (tag e) (AList.update k v (attrib e)) (children e)"

definition append_elem :: "element \<Rightarrow> element \<Rightarrow> element" where
  "append_elem e c = Element (tag e) (attrib e) (children e @ [c])"

subsection \<open>The working tree, the output and the host\<close>

text \<open>A record of \<^verbatim>\<open>lineage.dependencies\<close> (a JSON object with the keys
  \<^verbatim>\<open>repository\<close>, \<^verbatim>\<open>target_path\<close> and, optionally, \<^verbatim>\<open>branch\<close>), and the
  two contents such a file can have for \<^verbatim>\<open>json.loads\<close>.\<close>

record dependency =
  repository :: string
  target_path :: string
  branch :: "string option"

datatype dependencies_file = BadJson | Dependencies "dependency list"

text \<open>What the script reads from the working tree: \<open>xml p\<close> is the root element
  \<^verbatim>\<open>ElementTree.parse(p)\<close> yields, \<open>None\<close> when the file is absent or does not
  parse; \<open>dependencies p\<close> is the file at \<open>p\<close>, \<open>None\<close> when
  \<^verbatim>\<open>os.path.exists(p)\<close> is false; \<open>isdir\<close> is \<^verbatim>\<open>os.path.isdir\<close>. A file written
  with \<^verbatim>\<open>ElementTree.tostring\<close> is taken to parse back to the tree written.\<close>

record filesystem =
  xml :: "string \<rightharpoonup> element"
  dependencies :: "string \<rightharpoonup> dependencies_file"
  isdir :: "string \<Rightarrow> bool"

text \<open>What the script does to the outside, in order: a line printed, a command given to
  \<^verbatim>\<open>os.system\<close>, and (for the trace of the walker) an entry into
  \<^verbatim>\<open>fetch_dependencies\<close> with its two arguments.\<close>

datatype event = Print string | System string | Enter string "string option"

record state =
  fs :: filesystem
  out :: "event list"

text \<open>A repository of the search response and an element of the lists served by its
  \<^verbatim>\<open>branches_url\<close> and \<^verbatim>\<open>tags_url\<close>, of which only the key \<^verbatim>\<open>name\<close> is read.\<close>

record candidate =
  name :: string
  branches_url :: string
  tags_url :: string

datatype gitref = GitRef (ref_name: string)

text \<open>The outside world. \<open>search url\<close> is the \<^verbatim>\<open>items\<close> list of the decoded search
  response (\<open>Inl URLError\<close>: the request failed, \<open>Inl ValueError\<close>: the body is not
  JSON); \<open>refs url\<close> is the decoded list behind a branches or tags URL;
  \<open>getenv\<close> is \<^verbatim>\<open>os.getenv\<close>; \<open>re_match\<close> and \<open>re_search\<close> take the pattern and
  the subject and say whether \<^verbatim>\<open>re.match\<close> and \<^verbatim>\<open>re.search\<close> find a match;
  \<open>repo_sync cmd\<close> is what running the command \<open>cmd\<close> does to the working tree.\<close>

record host =
  search :: "string \<Rightarrow> error + candidate list"
  refs :: "string \<Rightarrow> error + gitref list"
  getenv :: "string \<Rightarrow> string option"
  re_match :: "string \<Rightarrow> string \<Rightarrow> error + bool"
  re_search :: "string \<Rightarrow> string \<Rightarrow> error + bool"
  repo_sync :: "string \<Rightarrow> filesystem \<Rightarrow> filesystem"

definition print :: "string \<Rightarrow> state \<Rightarrow> state" where
  "print line st = st\<lparr>out := out st @ [Print line]\<rparr>"

definition os_system :: "host \<Rightarrow> string \<Rightarrow> state \<Rightarrow> state" where
  "os_system h cmd st = st\<lparr>fs := repo_sync h cmd (fs st), out := out st @ [System cmd]\<rparr>"

text \<open>Python's truth value of an optional string: \<^verbatim>\<open>None\<close> and \<^verbatim>\<open>""\<close> are false.\<close>

definition truthy :: "string option \<Rightarrow> bool" where
  "truthy v = (case v of None \<Rightarrow> False | Some s \<Rightarrow> s \<noteq> [])"

subsection \<open>Manifest store (lines 107--212)\<close>

text \<open>The pattern \<^verbatim>\<open>try: lm = ElementTree.parse(p).getroot()  except: lm = ElementTree.Element("manifest")\<close>.\<close>

definition load :: "filesystem \<Rightarrow> string \<Rightarrow> element" where
  "load f p = (case xml f p of Some root \<Rightarrow> root | None \<Rightarrow> Element ''manifest'' [] [])"

definition get_manifest_path :: "filesystem \<Rightarrow> error + string" where
  "get_manifest_path f =
     (case xml f ''.repo/manifest.xml'' of
        None \<Rightarrow> Inl ParseError
      | Some m \<Rightarrow>
          (case findall ''default'' m of
             _ # _ \<Rightarrow> Inr ''.repo/manifest.xml''
           | [] \<Rightarrow>
               (case find_elem ''include'' m of
                  None \<Rightarrow> Inl AttributeError
                | Some inc \<Rightarrow>
                    Inr (''.repo/manifests/'' @
                      (case get inc ''name'' of None \<Rightarrow> ''None'' | Some n \<Rightarrow> n)))))"

definition get_default_revision :: "filesystem \<Rightarrow> error + string" where
  "get_default_revision f =
     (case get_manifest_path f of
        Inl e \<Rightarrow> Inl e
      | Inr p \<Rightarrow>
          (case xml f p of
             None \<Rightarrow> Inl ParseError
           | Some m \<Rightarrow>
               (case findall ''default'' m of
                  [] \<Rightarrow> Inl IndexError
                | d # _ \<Rightarrow>
                    (case get d ''revision'' of
                       None \<Rightarrow> Inl AttributeError
                     | Some r \<Rightarrow>
                         Inr (replace ''refs/tags/'' [] (replace ''refs/heads/'' [] r))))))"

text \<open>The loop \<^verbatim>\<open>for localpath in lm.findall("project"): if localpath.get("path") == projectpath\<close>.\<close>

definition has_path :: "element \<Rightarrow> string \<Rightarrow> bool" where
  "has_path lm projectpath =
     list_ex (\<lambda>localpath. get localpath ''path'' = Some projectpath) (findall ''project'' lm)"

text \<open>The three documents \<^verbatim>\<open>is_in_manifest\<close> reads. A failure to resolve the path of
  the main manifest is inside the \<^verbatim>\<open>try\<close> and gives the empty document as well.\<close>

definition local_manifest :: "filesystem \<Rightarrow> element" where
  "local_manifest f = load f ''.repo/local_manifests/roomservice.xml''"

definition main_manifest :: "filesystem \<Rightarrow> element" where
  "main_manifest f =
     (case get_manifest_path f of
        Inl e \<Rightarrow> Element ''manifest'' [] []
      | Inr p \<Rightarrow> load f p)"

definition lineage_snippet :: "filesystem \<Rightarrow> element" where
  "lineage_snippet f = load f ''.repo/manifests/snippets/lineage.xml''"

definition is_in_manifest :: "filesystem \<Rightarrow> string \<Rightarrow> bool" where
  "is_in_manifest f projectpath =
     (if has_path (local_manifest f) projectpath then True
      else if has_path (main_manifest f) projectpath then True
      else has_path (lineage_snippet f) projectpath)"

text \<open>One round of the loop of \<^verbatim>\<open>add_to_manifest\<close> (lines 180--205), on the tree
  \<open>lm\<close> held in memory and the output. The membership test reads the files, which the
  loop does not write.\<close>

definition add_repository ::
  "filesystem \<Rightarrow> string option \<Rightarrow> dependency \<Rightarrow> element \<times> event list \<Rightarrow> element \<times> event list" where
  "add_repository f fallback_branch r acc =
     (case acc of (lm, o0) \<Rightarrow>
        let repo_name = repository r;
            repo_target = target_path r;
            o1 = o0 @ [Print (''Checking if '' @ repo_target @ '' is fetched from '' @ repo_name)]
        in if is_in_manifest f repo_target
           then (lm, o1 @ [Print (''LineageOS/'' @ repo_name @ '' already fetched to '' @ repo_target)])
           else
             let o2 = o1 @ [Print (''Adding dependency: LineageOS/'' @ repo_name @ '' -> '' @ repo_target)];
                 project = Element ''project''
                   [(''path'', repo_target), (''remote'', ''github''),
                    (''name'', ''LineageOS/'' @ repo_name)] []
             in (case branch r of
                   Some b \<Rightarrow> (append_elem lm (set_attr project ''revision'' b), o2)
                 | None \<Rightarrow>
                     (case fallback_branch of
                        Some fb \<Rightarrow>
                          if fb \<noteq> []
                          then (append_elem lm (set_attr project ''revision'' fb),
                                o2 @ [Print (''Using fallback branch '' @ fb @ '' for '' @ repo_name)])
                          else (append_elem lm project,
                                o2 @ [Print (''Using default branch for '' @ repo_name)])
                      | None \<Rightarrow>
                          (append_elem lm project,
                           o2 @ [Print (''Using default branch for '' @ repo_name)]))))"

definition add_to_manifest :: "dependency list \<Rightarrow> string option \<Rightarrow> state \<Rightarrow> state" where
  "add_to_manifest repositories fallback_branch st =
     (case fold (add_repository (fs st) fallback_branch) repositories
             (local_manifest (fs st), out st) of
        (lm, o1) \<Rightarrow>
          \<lparr>fs = (fs st)\<lparr>xml := (xml (fs st))(''.repo/local_manifests/roomservice.xml'' \<mapsto> lm)\<rparr>,
           out = o1\<rparr>)"

subsection \<open>Dependency walker (lines 214--244)\<close>

text \<open>The walker recurses without a bound, so it takes fuel: \<open>OutOfFuel\<close> says that
  the given depth of recursion did not suffice, \<open>Raise\<close> is an uncaught exception.\<close>

datatype 'a result = OutOfFuel | Raise error | Return 'a

text \<open>One round of the loop over the records of the dependency file (lines 225--231), on
  \<^verbatim>\<open>fetch_list\<close>, \<^verbatim>\<open>syncable_repos\<close> and \<^verbatim>\<open>verify_repos\<close>.\<close>

definition scan_dependency ::
  "filesystem \<Rightarrow> dependency \<Rightarrow> dependency list \<times> string list \<times> string list
     \<Rightarrow> dependency list \<times> string list \<times> string list" where
  "scan_dependency f dep acc =
     (case acc of (fetch_list, syncable_repos, verify_repos) \<Rightarrow>
        let (fetch_list1, syncable1) =
              (if \<not> is_in_manifest f (target_path dep)
               then (fetch_list @ [dep], syncable_repos @ [target_path dep])
               else (fetch_list, syncable_repos));
            verify1 = verify_repos @ [target_path dep];
            syncable2 =
              (if \<not> isdir f (target_path dep) then syncable1 @ [target_path dep]
               else syncable1)
        in (fetch_list1, syncable2, verify1))"

text \<open>Lines 215--241: everything one call does before it recurses. The result is the
  state reached and \<^verbatim>\<open>verify_repos\<close>.\<close>

definition fetch_dependencies_body ::
  "host \<Rightarrow> string \<Rightarrow> string option \<Rightarrow> state \<Rightarrow> error + state \<times> string list" where
  "fetch_dependencies_body h repo_path fallback_branch st0 =
     (let st1 = print (''Looking for dependencies in '' @ repo_path)
                  (st0\<lparr>out := out st0 @ [Enter repo_path fallback_branch]\<rparr>);
          dependencies_path = repo_path @ ''/lineage.dependencies''
      in case dependencies (fs st1) dependencies_path of
           None \<Rightarrow> Inr (print (repo_path @ '' has no additional dependencies.'') st1, [])
         | Some BadJson \<Rightarrow> Inl ValueError
         | Some (Dependencies deps) \<Rightarrow>
             (case fold (scan_dependency (fs st1)) deps ([], [], []) of
                (fetch_list, syncable_repos, verify_repos) \<Rightarrow>
                  let st2 = (if fetch_list \<noteq> []
                             then add_to_manifest fetch_list fallback_branch
                                    (print ''Adding dependencies to manifest'' st1)
                             else st1);
                      st3 = (if syncable_repos \<noteq> []
                             then os_system h
                                    (''repo sync --force-sync '' @ join '' '' syncable_repos)
                                    (print ''Syncing dependencies'' st2)
                             else st2)
                  in Inr (st3, verify_repos)))"

text \<open>A \<^verbatim>\<open>for\<close> loop whose body may raise or run out of fuel.\<close>

fun for_each :: "('a \<Rightarrow> state \<Rightarrow> state result) \<Rightarrow> 'a list \<Rightarrow> state \<Rightarrow> state result" where
  "for_each body [] st = Return st"
| "for_each body (x # xs) st =
     (case body x st of
        OutOfFuel \<Rightarrow> OutOfFuel
      | Raise e \<Rightarrow> Raise e
      | Return st' \<Rightarrow> for_each body xs st')"

primrec fetch_dependencies ::
  "nat \<Rightarrow> host \<Rightarrow> string \<Rightarrow> string option \<Rightarrow> state \<Rightarrow> state result" where
  "fetch_dependencies 0 h repo_path fallback_branch st = OutOfFuel"
| "fetch_dependencies (Suc n) h repo_path fallback_branch st =
     (case fetch_dependencies_body h repo_path fallback_branch st of
        Inl e \<Rightarrow> Raise e
      | Inr (st', verify_repos) \<Rightarrow>
          for_each (\<lambda>deprepo. fetch_dependencies n h deprepo None) verify_repos st')"

subsection \<open>Revision resolver (lines 246--247 and 268--289)\<close>

definition has_branch :: "gitref list \<Rightarrow> string \<Rightarrow> bool" where
  "has_branch branches revision = (revision \<in> set (map ref_name branches))"

text \<open>Lines 268--276: the branch list, extended by the tag list when the default revision
  is not a branch.\<close>

definition branch_info :: "host \<Rightarrow> candidate \<Rightarrow> string \<Rightarrow> error + gitref list" where
  "branch_info h repo default_revision =
     (case refs h (replace ''{/branch}'' [] (branches_url repo)) of
        Inl e \<Rightarrow> Inl e
      | Inr result \<Rightarrow>
          if \<not> has_branch result default_revision
          then (case refs h (replace ''{/tag}'' [] (tags_url repo)) of
                  Inl e \<Rightarrow> Inl e
                | Inr tags \<Rightarrow> Inr (result @ tags))
          else Inr result)"

text \<open>The loop \<^verbatim>\<open>for fallback in fallbacks: if has_branch(result, fallback): ... break\<close>.\<close>

fun first_fallback :: "gitref list \<Rightarrow> string list \<Rightarrow> string option" where
  "first_fallback result [] = None"
| "first_fallback result (fallback # fallbacks) =
     (if has_branch result fallback then Some fallback
      else first_fallback result fallbacks)"

text \<open>Lines 281--289: the value of \<^verbatim>\<open>fallback_branch\<close> after the search of the
  fallback list.\<close>

definition choose_fallback :: "host \<Rightarrow> gitref list \<Rightarrow> string \<Rightarrow> string option" where
  "choose_fallback h result default_revision =
     (if \<not> has_branch result default_revision
      then (case getenv h ''ROOMSERVICE_BRANCHES'' of
              None \<Rightarrow> None
            | Some v \<Rightarrow>
                if v \<noteq> []
                then first_fallback result (filter (\<lambda>s. s \<noteq> []) (split (CHR '' '') v))
                else None)
      else None)"

subsection \<open>The script (lines 42--85 and 249--313)\<close>

text \<open>How a run ends: it reaches the end of the script, or \<^verbatim>\<open>sys.exit\<close> is called
  with or without a status.\<close>

datatype exit = FallOffEnd | SysExit "int option"

definition prints :: "string list \<Rightarrow> state \<Rightarrow> state" where
  "prints lines st = st\<lparr>out := out st @ map Print lines\<rparr>"

text \<open>\<^verbatim>\<open>get_from_manifest\<close> (lines 126--137): the \<^verbatim>\<open>path\<close> of the first project of
  the local manifest whose name the pattern finds. A project without a name makes
  \<^verbatim>\<open>re.search\<close> raise \<^verbatim>\<open>TypeError\<close>.\<close>

fun first_device_project :: "host \<Rightarrow> string \<Rightarrow> element list \<Rightarrow> error + string option" where
  "first_device_project h pat [] = Inr None"
| "first_device_project h pat (localpath # rest) =
     (case get localpath ''name'' of
        None \<Rightarrow> Inl TypeError
      | Some n \<Rightarrow>
          (case re_search h pat n of
             Inl e \<Rightarrow> Inl e
           | Inr found \<Rightarrow>
               if found then Inr (get localpath ''path'')
               else first_device_project h pat rest))"

definition get_from_manifest :: "host \<Rightarrow> string \<Rightarrow> filesystem \<Rightarrow> error + string option" where
  "get_from_manifest h dev f =
     first_device_project h (''android_device_.*_'' @ dev @ ''$'')
       (findall ''project'' (local_manifest f))"

text \<open>Lines 301--309: the entry is written, the repository synced and its dependencies
  walked.\<close>

definition fetch_repository ::
  "host \<Rightarrow> nat \<Rightarrow> string \<Rightarrow> dependency \<Rightarrow> string option \<Rightarrow> state
     \<Rightarrow> (exit \<times> state) result" where
  "fetch_repository h fuel repo_path adding fallback_branch st3 =
     (let st4 = add_to_manifest [adding] fallback_branch st3;
          st5 = print ''Syncing repository to retrieve project.'' st4;
          st6 = os_system h (''repo sync --force-sync '' @ repo_path) st5;
          st7 = print ''Repository synced!'' st6
      in case fetch_dependencies fuel h repo_path fallback_branch st7 of
           OutOfFuel \<Rightarrow> OutOfFuel
         | Raise e \<Rightarrow> Raise e
         | Return st8 \<Rightarrow> Return (SysExit None, print ''Done'' st8))"

text \<open>Lines 261--299: what is done with the repository that the filter accepts, up to
  the point where the revision is resolved or the script gives up.\<close>

definition process_repository ::
  "host \<Rightarrow> nat \<Rightarrow> string \<Rightarrow> candidate \<Rightarrow> state \<Rightarrow> (exit \<times> state) result" where
  "process_repository h fuel dev repo st0 =
     (let repo_name = name repo;
          st1 = print (''Found repository: '' @ name repo) st0;
          manufacturer = replace (''_'' @ dev) [] (replace ''android_device_'' [] repo_name)
      in case get_default_revision (fs st1) of
           Inl e \<Rightarrow> Raise e
         | Inr default_revision \<Rightarrow>
             let st2 = prints [''Default revision: '' @ default_revision,
                               ''Checking branch info''] st1
             in case branch_info h repo default_revision of
                  Inl e \<Rightarrow> Raise e
                | Inr result \<Rightarrow>
                    let repo_path = ''device/'' @ manufacturer @ ''/'' @ dev;
                        adding = \<lparr>repository = repo_name, target_path = repo_path,
                                  branch = None\<rparr>;
                        fallback_branch = choose_fallback h result default_revision;
                        st3 = (case fallback_branch of
                                 None \<Rightarrow> st2
                               | Some fallback \<Rightarrow>
                                   print (''Using fallback branch: '' @ fallback) st2)
                    in if \<not> has_branch result default_revision \<and> \<not> truthy fallback_branch
                       then Return (SysExit None,
                              prints
                                ([''Default revision '' @ default_revision @ '' not found in ''
                                    @ repo_name @ ''. Bailing.'',
                                  ''Branches found:''] @
                                 map ref_name result @
                                 [''Use the ROOMSERVICE_BRANCHES environment variable to specify a list of fallback branches.''])
                                st3)
                       else fetch_repository h fuel repo_path adding fallback_branch st3)"

text \<open>Lines 258--313: the loop over the search result and the message after it.\<close>

fun select_repository ::
  "host \<Rightarrow> nat \<Rightarrow> string \<Rightarrow> candidate list \<Rightarrow> state \<Rightarrow> (exit \<times> state) result" where
  "select_repository h fuel dev [] st =
     Return (FallOffEnd,
       print (''Repository for '' @ dev @ '' not found in the LineageOS Github repository list. If this is in error, you may need to manually add it to your local_manifests/roomservice.xml.'') st)"
| "select_repository h fuel dev (repo # rest) st =
     (case re_match h (''^android_device_[^_]*_'' @ dev @ ''$'') (name repo) of
        Inl e \<Rightarrow> Raise e
      | Inr found \<Rightarrow>
          if found then process_repository h fuel dev repo st
          else select_repository h fuel dev rest st)"

text \<open>The whole script, for \<^verbatim>\<open>sys.argv[1]\<close> and the optional \<^verbatim>\<open>sys.argv[2]\<close>. The
  credentials of lines 57--68 only add a request header and are left out, as is the
  creation of the directory of the local manifest (line 87).\<close>

definition main :: "host \<Rightarrow> nat \<Rightarrow> string \<Rightarrow> string option \<Rightarrow> state \<Rightarrow> (exit \<times> state) result" where
  "main h fuel product depsonly st0 =
     (let dev = device product
      in if truthy depsonly
         then (case get_from_manifest h dev (fs st0) of
                 Inl e \<Rightarrow> Raise e
               | Inr repo_path \<Rightarrow>
                   if truthy repo_path
                   then (case repo_path of
                           None \<Rightarrow> Return (SysExit None, st0)
                         | Some p \<Rightarrow>
                             (case fetch_dependencies fuel h p None st0 of
                                OutOfFuel \<Rightarrow> OutOfFuel
                              | Raise e \<Rightarrow> Raise e
                              | Return st1 \<Rightarrow> Return (SysExit None, st1)))
                   else Return (SysExit None,
                          print ''Trying dependencies-only mode on a non-existing device tree?'' st0))
         else
           let st1 = print (''Device '' @ dev @ '' not found. Attempting to retrieve device repository from LineageOS Github (http://github.com/LineageOS).'') st0
           in case search h (''https://api.github.com/search/repositories?q='' @ dev
                               @ ''+user:LineageOS+in:name+fork:true'') of
                Inl e \<Rightarrow>
                  if e = URLError
                  then Return (SysExit (Some 1), print ''Failed to search GitHub'' st1)
                  else if e = ValueError
                  then Return (SysExit (Some 1),
                         print ''Failed to parse return data from GitHub'' st1)
                  else Raise e
              | Inr repositories \<Rightarrow> select_repository h fuel dev repositories st1)"

subsection \<open>The patterns of \<^verbatim>\<open>re\<close> that the filter is built from\<close>

text \<open>A fragment of the pattern language of Python's \<^verbatim>\<open>re\<close>: ordinary characters,
  \<^verbatim>\<open>.\<close>, a negated class of one ordinary character such as \<^verbatim>\<open>[^_]\<close>, each
  optionally followed by \<^verbatim>\<open>*\<close>, and the anchors \<^verbatim>\<open>^\<close> and \<^verbatim>\<open>$\<close>. \<open>parse\<close>
  is \<open>None\<close> on every pattern outside the fragment (Python rejects some of them and
  gives others a meaning that is not modelled here).\<close>

definition special :: "char \<Rightarrow> bool" where
  "special c = (c \<in> set ''.^$*+?{}[]|()'' \<or> c = CHR 0x5C)"

datatype atom = Lit char | Dot | NotChar char

datatype item = Bol | Eol | One atom | Star atom

fun parse_atom :: "string \<Rightarrow> (atom \<times> string) option" where
  "parse_atom [] = None"
| "parse_atom (c # cs) =
     (if c = CHR ''.'' then Some (Dot, cs)
      else if c = CHR ''[''
      then (case cs of
              a # x # b # rest \<Rightarrow>
                if a = CHR ''^'' \<and> \<not> special x \<and> x \<noteq> CHR ''-'' \<and> b = CHR '']''
                then Some (NotChar x, rest) else None
            | _ \<Rightarrow> None)
      else if special c then None
      else Some (Lit c, cs))"

function parse :: "string \<Rightarrow> item list option" where
  "parse [] = Some []"
| "parse (c # cs) =
     (if c = CHR ''^'' then map_option (Cons Bol) (parse cs)
      else if c = CHR ''$'' then map_option (Cons Eol) (parse cs)
      else (case parse_atom (c # cs) of
              None \<Rightarrow> None
            | Some (a, rest) \<Rightarrow>
                (case rest of
                   [] \<Rightarrow> Some [One a]
                 | r # rest' \<Rightarrow>
                     if r = CHR ''*'' then map_option (Cons (Star a)) (parse rest')
                     else map_option (Cons (One a)) (parse rest))))"
  by pat_completeness auto
termination
  by (relation "measure length") (auto split: if_splits list.splits)

text \<open>Whether an atom takes a character: \<^verbatim>\<open>.\<close> takes everything but a newline.\<close>

fun atom_ok :: "atom \<Rightarrow> char \<Rightarrow> bool" where
  "atom_ok (Lit x) c = (c = x)"
| "atom_ok Dot c = (c \<noteq> CHR 0x0A)"
| "atom_ok (NotChar x) c = (c \<noteq> x)"

text \<open>Whether the items match a prefix of the rest \<open>s\<close> of the subject; \<open>start\<close> says
  that no character has been consumed. \<^verbatim>\<open>^\<close> holds at the start only, \<^verbatim>\<open>$\<close> at
  the end and before a final newline.\<close>

fun matches :: "item list \<Rightarrow> bool \<Rightarrow> string \<Rightarrow> bool" where
  "matches [] start s = True"
| "matches (Bol # items) start s = (start \<and> matches items start s)"
| "matches (Eol # items) start s = ((s = [] \<or> s = [CHR 0x0A]) \<and> matches items start s)"
| "matches (One a # items) start s =
     (case s of [] \<Rightarrow> False | c # cs \<Rightarrow> atom_ok a c \<and> matches items False cs)"
| "matches (Star a # items) start s =
     (matches items start s \<or>
      (case s of [] \<Rightarrow> False | c # cs \<Rightarrow> atom_ok a c \<and> matches (Star a # items) False cs))"

text \<open>\<^verbatim>\<open>re.match(pattern, s)\<close> as a truth value, on the fragment.\<close>

definition py_match :: "string \<Rightarrow> string \<Rightarrow> bool option" where
  "py_match pattern s = map_option (\<lambda>items. matches items True s) (parse pattern)"


subsection \<open>Notions used in the statements\<close>

text \<open>The \<^verbatim>\<open>path\<close> attributes of the projects of a document, and of the three
  documents together, with repetitions.\<close>

definition project_paths :: "element \<Rightarrow> string list" where
  "project_paths lm = List.map_filter (\<lambda>e. get e ''path'') (findall ''project'' lm)"

definition manifest_paths :: "filesystem \<Rightarrow> string list" where
  "manifest_paths f =
     project_paths (local_manifest f) @ project_paths (main_manifest f) @
     project_paths (lineage_snippet f)"

text \<open>The commands given to \<^verbatim>\<open>os.system\<close> and the calls of
  \<^verbatim>\<open>fetch_dependencies\<close> in an output, in order.\<close>

fun commands :: "event list \<Rightarrow> string list" where
  "commands [] = []"
| "commands (System c # es) = c # commands es"
| "commands (e # es) = commands es"

fun calls :: "event list \<Rightarrow> (string \<times> string option) list" where
  "calls [] = []"
| "calls (Enter p fb # es) = (p, fb) # calls es"
| "calls (e # es) = calls es"

text \<open>The list of fallback revisions (lines 283--284), the path of the device tree
  (lines 263 and 278), the URL of the search (line 72) and the pattern of the filter
  (line 260).\<close>

definition fallbacks :: "host \<Rightarrow> string list" where
  "fallbacks h =
     (case getenv h ''ROOMSERVICE_BRANCHES'' of
        None \<Rightarrow> []
      | Some v \<Rightarrow> filter (\<lambda>s. s \<noteq> []) (split (CHR '' '') v))"

definition device_path :: "string \<Rightarrow> candidate \<Rightarrow> string" where
  "device_path dev repo =
     ''device/'' @ replace (''_'' @ dev) [] (replace ''android_device_'' [] (name repo)) @ ''/'' @ dev"

definition search_url :: "string \<Rightarrow> string" where
  "search_url dev = ''https://api.github.com/search/repositories?q='' @ dev
     @ ''+user:LineageOS+in:name+fork:true''"

definition device_pattern :: "string \<Rightarrow> string" where
  "device_pattern dev = ''^android_device_[^_]*_'' @ dev @ ''$''"

subsection \<open>Concrete working trees and hosts\<close>

definition fs_empty :: filesystem where
  "fs_empty = \<lparr>xml = Map.empty, dependencies = Map.empty, isdir = (\<lambda>p. False)\<rparr>"

definition dep_foo :: dependency where
  "dep_foo = \<lparr>repository = ''android_vendor_foo'', target_path = ''vendor/foo'', branch = None\<rparr>"

definition project_foo :: element where
  "project_foo = Element ''project''
     [(''path'', ''vendor/foo''), (''remote'', ''github''),
      (''name'', ''LineageOS/android_vendor_foo'')] []"



text \<open>A host that finds nothing, has no environment, reads patterns as \<open>py_match\<close>
  does and whose \<^verbatim>\<open>repo sync\<close> leaves the tree alone; and trees with a dependency
  file for \<^verbatim>\<open>device/acme/widget\<close>, in the second one also for \<^verbatim>\<open>vendor/foo\<close>.\<close>

definition host0 :: host where
  "host0 = \<lparr>search = (\<lambda>url. Inr []), refs = (\<lambda>url. Inr []), getenv = (\<lambda>v. None),
     re_match = (\<lambda>p s. case py_match p s of None \<Rightarrow> Inl re_error | Some b \<Rightarrow> Inr b),
     re_search = (\<lambda>p s. Inr False), repo_sync = (\<lambda>cmd f. f)\<rparr>"

definition dep_bar :: dependency where
  "dep_bar = \<lparr>repository = ''android_vendor_bar'', target_path = ''vendor/bar'', branch = None\<rparr>"

definition fs_widget :: filesystem where
  "fs_widget = fs_empty\<lparr>dependencies :=
     [''device/acme/widget/lineage.dependencies'' \<mapsto> Dependencies [dep_foo]]\<rparr>"

definition fs_chain :: filesystem where
  "fs_chain = fs_empty\<lparr>dependencies :=
     [''device/acme/widget/lineage.dependencies'' \<mapsto> Dependencies [dep_foo],
      ''vendor/foo/lineage.dependencies'' \<mapsto> Dependencies [dep_bar]]\<rparr>"

text \<open>A repository of the search response with a host that serves it, its branch
  \<^verbatim>\<open>main\<close> and its tag \<^verbatim>\<open>lineage-20-release\<close> and has the given value of
  \<^verbatim>\<open>ROOMSERVICE_BRANCHES\<close>; a tree whose main manifest has the default revision
  \<^verbatim>\<open>refs/heads/lineage-20\<close>; a host whose search request fails.\<close>

definition cand_widget :: candidate where
  "cand_widget = \<lparr>name = ''android_device_acme_widget'',
     branches_url = ''https://api.github.com/repos/LineageOS/android_device_acme_widget/branches{/branch}'',
     tags_url = ''https://api.github.com/repos/LineageOS/android_device_acme_widget/tags{/tag}''\<rparr>"

definition host_widget :: "string \<Rightarrow> host" where
  "host_widget env = host0\<lparr>
     search := (\<lambda>url. Inr [cand_widget]),
     refs := (\<lambda>url.
       if url = ''https://api.github.com/repos/LineageOS/android_device_acme_widget/branches''
       then Inr [GitRef ''main'']
       else if url = ''https://api.github.com/repos/LineageOS/android_device_acme_widget/tags''
       then Inr [GitRef ''lineage-20-release'']
       else Inl URLError),
     getenv := (\<lambda>v. if v = ''ROOMSERVICE_BRANCHES'' then Some env else None)\<rparr>"

definition fs_manifest :: filesystem where
  "fs_manifest = fs_empty\<lparr>xml :=
     [''.repo/manifest.xml'' \<mapsto>
        Element ''manifest'' [] [Element ''default'' [(''revision'', ''refs/heads/lineage-20'')] []]]\<rparr>"

definition host_down :: host where
  "host_down = host0\<lparr>search := (\<lambda>url. Inl URLError)\<rparr>"


section \<open>Properties\<close>

lemma index_None: "index s c = None \<longleftrightarrow> c \<notin> set s"
  by (induction s) auto

lemma index_Some:
  "index s c = Some i \<Longrightarrow> s = take i s @ c # drop (Suc i) s \<and> c \<notin> set (take i s)"
  by (induction s arbitrary: i) (auto split: if_splits)

text \<open>
  C7. A product identifier that contains an underscore yields the text after its first
  underscore; one without an underscore is returned unchanged.
\<close>

theorem device_after_first_underscore:
  "(CHR ''_'' \<in> set product \<longrightarrow>
      (\<exists>pre. product = pre @ CHR ''_'' # device product \<and> CHR ''_'' \<notin> set pre)) \<and>
   (CHR ''_'' \<notin> set product \<longrightarrow> device product = product)"
proof (cases "index product (CHR ''_'')")
  case None
  have "CHR ''_'' \<notin> set product"
    using None index_None [of product "CHR ''_''"] by simp
  moreover have "device product = product"
    by (simp add: device_def None)
  ultimately show ?thesis by simp
next
  case (Some i)
  have mem: "CHR ''_'' \<in> set product"
    using Some index_None [of product "CHR ''_''"] by auto
  have dev: "device product = drop (Suc i) product"
    using Some by (simp add: device_def)
  from index_Some [OF Some]
  have "product = take i product @ CHR ''_'' # device product"
    and "CHR ''_'' \<notin> set (take i product)"
    by (simp_all add: dev)
  then show ?thesis using mem by blast
qed

theorem device_after_first_underscore_witness:
  "device ''lineage_sailfish_x'' = ''sailfish_x'' \<and> device ''sailfish'' = ''sailfish''"
  using device_after_first_underscore [of "''lineage_sailfish_x''"]
    device_after_first_underscore [of "''sailfish''"]
  by (simp add: device_def)





lemma project_paths_append_elem:
  "project_paths (append_elem lm e) =
     project_paths lm @ (if tag e = ''project'' then (case get e ''path'' of None \<Rightarrow> [] | Some p \<Rightarrow> [p]) else [])"
  by (simp add: project_paths_def append_elem_def findall_def List.map_filter_def get_def split: option.splits)

lemma project_paths_add_repository:
  "project_paths (fst (add_repository f fb r acc)) =
     project_paths (fst acc) @ (if is_in_manifest f (target_path r) then [] else [target_path r])"
  by (cases acc)
    (simp add: add_repository_def Let_def project_paths_append_elem set_attr_def get_def
      split: option.splits)

lemma project_paths_fold:
  "project_paths (fst (fold (add_repository f fb) rs acc)) =
     project_paths (fst acc) @ map target_path (filter (\<lambda>r. \<not> is_in_manifest f (target_path r)) rs)"
  by (induction rs arbitrary: acc) (simp_all add: project_paths_add_repository)


lemma get_manifest_path_written:
  "get_manifest_path (f\<lparr>xml := (xml f)(''.repo/local_manifests/roomservice.xml'' \<mapsto> lm)\<rparr>) =
     get_manifest_path f"
  by (simp add: get_manifest_path_def)

lemma get_manifest_path_other:
  "get_manifest_path f = Inr p \<Longrightarrow> p \<noteq> ''.repo/local_manifests/roomservice.xml''"
  by (auto simp: get_manifest_path_def split: option.splits list.splits)

lemma main_manifest_written:
  "main_manifest (f\<lparr>xml := (xml f)(''.repo/local_manifests/roomservice.xml'' \<mapsto> lm)\<rparr>) =
     main_manifest f"
  by (auto simp: main_manifest_def get_manifest_path_written load_def
      dest: get_manifest_path_other split: sum.splits)

lemma lineage_snippet_written:
  "lineage_snippet (f\<lparr>xml := (xml f)(''.repo/local_manifests/roomservice.xml'' \<mapsto> lm)\<rparr>) =
     lineage_snippet f"
  by (simp add: lineage_snippet_def load_def)

lemma local_manifest_written:
  "local_manifest (f\<lparr>xml := (xml f)(''.repo/local_manifests/roomservice.xml'' \<mapsto> lm)\<rparr>) = lm"
  by (simp add: local_manifest_def load_def)

lemma fs_add_to_manifest:
  "fs (add_to_manifest rs fb st) =
     (fs st)\<lparr>xml := (xml (fs st))(''.repo/local_manifests/roomservice.xml'' \<mapsto>
        fst (fold (add_repository (fs st) fb) rs (local_manifest (fs st), out st)))\<rparr>"
  by (simp add: add_to_manifest_def split: prod.splits)

lemma manifest_paths_add_to_manifest:
  "manifest_paths (fs (add_to_manifest rs fb st)) =
     project_paths (local_manifest (fs st)) @
     map target_path (filter (\<lambda>r. \<not> is_in_manifest (fs st) (target_path r)) rs) @
     project_paths (main_manifest (fs st)) @ project_paths (lineage_snippet (fs st))"
  by (simp add: manifest_paths_def fs_add_to_manifest local_manifest_written
      main_manifest_written lineage_snippet_written project_paths_fold)







text \<open>
  C5. On an empty tree, a batch of two records with the target path \<^verbatim>\<open>vendor/foo\<close>
  leaves two entries for that path: the membership test reads the files, not the tree
  being built.
\<close>

theorem add_to_manifest_duplicate_batch:
  "manifest_paths (fs (add_to_manifest
      [dep_foo,
       \<lparr>repository = ''android_vendor_foo2'', target_path = ''vendor/foo'', branch = None\<rparr>]
      None \<lparr>fs = fs_empty, out = []\<rparr>)) = [''vendor/foo'', ''vendor/foo'']"
  by (simp add: manifest_paths_add_to_manifest)
    (simp add: dep_foo_def fs_empty_def is_in_manifest_def has_path_def local_manifest_def main_manifest_def
      lineage_snippet_def load_def get_manifest_path_def findall_def project_paths_def
      List.map_filter_def)

lemma calls_append: "calls (xs @ ys) = calls xs @ calls ys"
  by (induction xs rule: calls.induct) simp_all

lemma calls_add_repository: "calls (snd (add_repository f fb r acc)) = calls (snd acc)"
  by (cases acc) (simp add: add_repository_def Let_def calls_append split: option.splits)

lemma calls_fold_add_repository:
  "calls (snd (fold (add_repository f fb) rs acc)) = calls (snd acc)"
  by (induction rs arbitrary: acc) (simp_all add: calls_add_repository)

lemma calls_add_to_manifest: "calls (out (add_to_manifest rs fb st)) = calls (out st)"
  using calls_fold_add_repository [of "fs st" fb rs "(local_manifest (fs st), out st)"]
  by (auto simp: add_to_manifest_def split: prod.splits)

lemma calls_body:
  "fetch_dependencies_body h p fb st = Inr (st', v) \<Longrightarrow>
     calls (out st') = calls (out st) @ [(p, fb)]"
  by (auto simp: fetch_dependencies_body_def Let_def print_def os_system_def calls_append
      calls_add_to_manifest split: option.splits dependencies_file.splits prod.splits if_splits)

lemma calls_for_each:
  assumes step: "\<And>x st st'. body x st = Return st' \<Longrightarrow>
      \<exists>cs. calls (out st') = calls (out st) @ cs \<and> (\<forall>c \<in> set cs. snd c = None)"
  shows "for_each body xs st = Return st' \<Longrightarrow>
      \<exists>cs. calls (out st') = calls (out st) @ cs \<and> (\<forall>c \<in> set cs. snd c = None)"
proof (induction xs arbitrary: st)
  case Nil
  then show ?case by simp
next
  case (Cons x xs)
  from Cons.prems obtain st1 where b: "body x st = Return st1"
    and r: "for_each body xs st1 = Return st'"
    by (auto split: result.splits)
  from step [OF b] obtain cs1 where c1: "calls (out st1) = calls (out st) @ cs1"
    "\<forall>c \<in> set cs1. snd c = None" by blast
  from Cons.IH [OF r] obtain cs2 where c2: "calls (out st') = calls (out st1) @ cs2"
    "\<forall>c \<in> set cs2. snd c = None" by blast
  have "calls (out st') = calls (out st) @ (cs1 @ cs2)" using c1 c2 by simp
  moreover have "\<forall>c \<in> set (cs1 @ cs2). snd c = None" using c1 c2 by auto
  ultimately show ?case by blast
qed

lemmas walker_defs = fetch_dependencies_body_def scan_dependency_def add_to_manifest_def
  add_repository_def is_in_manifest_def has_path_def local_manifest_def main_manifest_def
  lineage_snippet_def load_def get_manifest_path_def findall_def get_def append_elem_def
  set_attr_def print_def os_system_def

text \<open>
  C10. In a run of \<^verbatim>\<open>fetch_dependencies\<close> that returns, the calls made are the outer
  call with its own arguments followed by calls whose fallback revision is \<^verbatim>\<open>None\<close>:
  every recursive call, at any depth, is made without a fallback, whatever the outer call
  was given.
\<close>

theorem recursive_calls_without_fallback:
  "fetch_dependencies n h repo_path fallback_branch st = Return st' \<Longrightarrow>
     \<exists>cs. calls (out st') = calls (out st) @ (repo_path, fallback_branch) # cs \<and>
          (\<forall>c \<in> set cs. snd c = None)"
proof (induction n arbitrary: repo_path fallback_branch st st')
  case 0
  then show ?case by simp
next
  case (Suc n)
  from Suc.prems obtain st1 v where
    b: "fetch_dependencies_body h repo_path fallback_branch st = Inr (st1, v)" and
    r: "for_each (\<lambda>deprepo. fetch_dependencies n h deprepo None) v st1 = Return st'"
    by (auto split: sum.splits)
  have "\<exists>cs. calls (out st') = calls (out st1) @ cs \<and> (\<forall>c \<in> set cs. snd c = None)"
  proof (rule calls_for_each [OF _ r])
    fix x s s'
    assume "fetch_dependencies n h x None s = Return s'"
    from Suc.IH [OF this]
    obtain cs where "calls (out s') = calls (out s) @ (x, None) # cs" "\<forall>c \<in> set cs. snd c = None"
      by blast
    then have "calls (out s') = calls (out s) @ ((x, None) # cs) \<and>
        (\<forall>c \<in> set ((x, None) # cs). snd c = None)" by simp
    then show "\<exists>cs. calls (out s') = calls (out s) @ cs \<and> (\<forall>c \<in> set cs. snd c = None)"
      by blast
  qed
  then obtain cs where "calls (out st') = calls (out st1) @ cs" "\<forall>c \<in> set cs. snd c = None"
    by blast
  with calls_body [OF b] show ?case by simp
qed

theorem recursive_calls_without_fallback_witness:
  "(case fetch_dependencies (Suc (Suc (Suc 0))) host0 ''device/acme/widget'' (Some ''lineage-20'')
           \<lparr>fs = fs_chain, out = []\<rparr> of
      Return st' \<Rightarrow> calls (out st') | _ \<Rightarrow> []) =
   [(''device/acme/widget'', Some ''lineage-20''), (''vendor/foo'', None), (''vendor/bar'', None)]"
  using recursive_calls_without_fallback [of "Suc (Suc (Suc 0))" host0 "''device/acme/widget''"
      "Some ''lineage-20''" "\<lparr>fs = fs_chain, out = []\<rparr>"]
  by (simp add: walker_defs host0_def fs_chain_def fs_empty_def dep_foo_def dep_bar_def Let_def)

text \<open>
  C4, as amended. With the dependency file of \<^verbatim>\<open>device/acme/widget\<close> holding the one
  record for \<^verbatim>\<open>vendor/foo\<close>, that path in no manifest and its directory missing, the
  walker appends one project (remote \<^verbatim>\<open>github\<close>, name \<^verbatim>\<open>LineageOS/android_vendor_foo\<close>)
  to the local manifest, runs the sync command once, with \<^verbatim>\<open>vendor/foo\<close> given twice, and
  then continues as \<^verbatim>\<open>fetch_dependencies("vendor/foo")\<close> without a fallback.
\<close>

theorem fetch_dependencies_scenario:
  assumes depfile: "dependencies (fs st) ''device/acme/widget/lineage.dependencies'' =
      Some (Dependencies [\<lparr>repository = ''android_vendor_foo'', target_path = ''vendor/foo'',
                           branch = None\<rparr>])"
    and absent: "\<not> is_in_manifest (fs st) ''vendor/foo''"
    and missing: "\<not> isdir (fs st) ''vendor/foo''"
  shows "fetch_dependencies (Suc n) h ''device/acme/widget'' fallback_branch st =
     fetch_dependencies n h ''vendor/foo'' None
       \<lparr>fs = repo_sync h ''repo sync --force-sync vendor/foo vendor/foo''
               ((fs st)\<lparr>xml := (xml (fs st))(''.repo/local_manifests/roomservice.xml'' \<mapsto>
                  append_elem (local_manifest (fs st))
                    (Element ''project''
                       ([(''path'', ''vendor/foo''), (''remote'', ''github''),
                         (''name'', ''LineageOS/android_vendor_foo'')] @
                        (if truthy fallback_branch then [(''revision'', the fallback_branch)]
                         else [])) []))\<rparr>),
        out = out st @
          [Enter ''device/acme/widget'' fallback_branch,
           Print ''Looking for dependencies in device/acme/widget'',
           Print ''Adding dependencies to manifest'',
           Print ''Checking if vendor/foo is fetched from android_vendor_foo'',
           Print ''Adding dependency: LineageOS/android_vendor_foo -> vendor/foo'',
           Print (if truthy fallback_branch
                  then ''Using fallback branch '' @ the fallback_branch @ '' for android_vendor_foo''
                  else ''Using default branch for android_vendor_foo''),
           Print ''Syncing dependencies'',
           System ''repo sync --force-sync vendor/foo vendor/foo'']\<rparr>"
proof -
  have body: "fetch_dependencies_body h ''device/acme/widget'' fallback_branch st =
     Inr (\<lparr>fs = repo_sync h ''repo sync --force-sync vendor/foo vendor/foo''
               ((fs st)\<lparr>xml := (xml (fs st))(''.repo/local_manifests/roomservice.xml'' \<mapsto>
                  append_elem (local_manifest (fs st))
                    (Element ''project''
                       ([(''path'', ''vendor/foo''), (''remote'', ''github''),
                         (''name'', ''LineageOS/android_vendor_foo'')] @
                        (if truthy fallback_branch then [(''revision'', the fallback_branch)]
                         else [])) []))\<rparr>),
        out = out st @
          [Enter ''device/acme/widget'' fallback_branch,
           Print ''Looking for dependencies in device/acme/widget'',
           Print ''Adding dependencies to manifest'',
           Print ''Checking if vendor/foo is fetched from android_vendor_foo'',
           Print ''Adding dependency: LineageOS/android_vendor_foo -> vendor/foo'',
           Print (if truthy fallback_branch
                  then ''Using fallback branch '' @ the fallback_branch @ '' for android_vendor_foo''
                  else ''Using default branch for android_vendor_foo''),
           Print ''Syncing dependencies'',
           System ''repo sync --force-sync vendor/foo vendor/foo'']\<rparr>, [''vendor/foo''])"
    using depfile absent missing
    by (simp add: fetch_dependencies_body_def scan_dependency_def add_to_manifest_def
        add_repository_def print_def os_system_def set_attr_def truthy_def Let_def
        split: option.splits)
  show ?thesis
    by (simp add: body split: result.splits)
qed

theorem fetch_dependencies_scenario_witness:
  "dependencies fs_widget ''device/acme/widget/lineage.dependencies'' =
     Some (Dependencies [\<lparr>repository = ''android_vendor_foo'', target_path = ''vendor/foo'',
                          branch = None\<rparr>]) \<and>
   \<not> is_in_manifest fs_widget ''vendor/foo'' \<and> \<not> isdir fs_widget ''vendor/foo'' \<and>
   (case fetch_dependencies (Suc (Suc 0)) host0 ''device/acme/widget'' None
           \<lparr>fs = fs_widget, out = []\<rparr> of
      Return st' \<Rightarrow> xml (fs st') ''.repo/local_manifests/roomservice.xml'' | _ \<Rightarrow> None) =
   Some (Element ''manifest'' [] [project_foo])"
proof -
  have deps: "dependencies (fs \<lparr>fs = fs_widget, out = []\<rparr>)
      ''device/acme/widget/lineage.dependencies'' =
      Some (Dependencies [\<lparr>repository = ''android_vendor_foo'', target_path = ''vendor/foo'',
                           branch = None\<rparr>])"
    by (simp add: fs_widget_def dep_foo_def)
  have absent: "\<not> is_in_manifest (fs \<lparr>fs = fs_widget, out = []\<rparr>) ''vendor/foo''"
    by (simp add: walker_defs fs_widget_def fs_empty_def)
  have missing: "\<not> isdir (fs \<lparr>fs = fs_widget, out = []\<rparr>) ''vendor/foo''"
    by (simp add: fs_widget_def fs_empty_def)
  show ?thesis
    using deps absent missing
      fetch_dependencies_scenario [OF deps absent missing, of "Suc 0" host0 None]
    by (simp add: walker_defs host0_def fs_widget_def fs_empty_def project_foo_def truthy_def)
qed

text \<open>
  C4 as stated fails in the list given to the sync command: the path is listed once for
  being in no manifest and once more for its missing directory.
\<close>

theorem fetch_dependencies_scenario_counterexample:
  "fold (scan_dependency fs_widget) [dep_foo] ([], [], []) =
     ([dep_foo], [''vendor/foo'', ''vendor/foo''], [''vendor/foo'']) \<and>
   (case fetch_dependencies (Suc (Suc 0)) host0 ''device/acme/widget'' None
           \<lparr>fs = fs_widget, out = []\<rparr> of
      Return st' \<Rightarrow> commands (out st') | _ \<Rightarrow> []) =
   [''repo sync --force-sync vendor/foo vendor/foo'']"
  by (simp add: walker_defs host0_def fs_widget_def fs_empty_def dep_foo_def Let_def)

lemma first_fallback_find: "first_fallback result xs = List.find (has_branch result) xs"
  by (induction xs) simp_all

lemma split_nonempty: "split c s \<noteq> []"
  by (induction s) (auto split: list.splits)

lemma choose_fallback_find:
  "\<not> has_branch result d \<Longrightarrow>
     choose_fallback h result d = List.find (has_branch result) (fallbacks h)"
  by (auto simp: choose_fallback_def fallbacks_def first_fallback_find split: option.splits list.splits)

lemma choose_fallback_default: "has_branch result d \<Longrightarrow> choose_fallback h result d = None"
  by (simp add: choose_fallback_def)

lemma find_truthy:
  "List.find P (fallbacks h) = Some f \<Longrightarrow> f \<noteq> []"
  by (auto simp: fallbacks_def find_Some_iff split: option.splits dest!: nth_mem)

lemma fs_print [simp]: "fs (print l st) = fs st"
  by (simp add: print_def)

lemma fs_prints [simp]: "fs (prints ls st) = fs st"
  by (simp add: prints_def)

lemma branch_info_branches:
  "refs h (replace ''{/branch}'' [] (branches_url repo)) = Inr branches \<Longrightarrow>
   has_branch branches d \<Longrightarrow> branch_info h repo d = Inr branches"
  by (simp add: branch_info_def)

lemma branch_info_tags:
  "refs h (replace ''{/branch}'' [] (branches_url repo)) = Inr branches \<Longrightarrow>
   \<not> has_branch branches d \<Longrightarrow>
   refs h (replace ''{/tag}'' [] (tags_url repo)) = Inr tags \<Longrightarrow>
   branch_info h repo d = Inr (branches @ tags)"
  by (simp add: branch_info_def)

text \<open>
  C1. For the accepted repository, with the default revision read and the branch list
  fetched: if the default revision is a branch, the script goes on with no fallback, whatever
  the tags URL would serve; otherwise the tag list is fetched and appended, and if the
  default revision is among the names now, the script goes on with no fallback; otherwise
  the first revision of the fallback list (the value of \<^verbatim>\<open>ROOMSERVICE_BRANCHES\<close> split
  at spaces) that is among the names is announced and used; if there is none, the script
  gives up.
\<close>

theorem revision_resolution_order:
  assumes rev: "get_default_revision (fs st) = Inr default_revision"
    and br: "refs h (replace ''{/branch}'' [] (branches_url repo)) = Inr branches"
  shows "let st2 = prints [''Default revision: '' @ default_revision, ''Checking branch info'']
                     (print (''Found repository: '' @ name repo) st);
             adding = \<lparr>repository = name repo, target_path = device_path dev repo, branch = None\<rparr>
         in (has_branch branches default_revision \<longrightarrow>
               process_repository h fuel dev repo st =
                 fetch_repository h fuel (device_path dev repo) adding None st2) \<and>
            (\<not> has_branch branches default_revision \<and>
             refs h (replace ''{/tag}'' [] (tags_url repo)) = Inr tags \<longrightarrow>
               process_repository h fuel dev repo st =
                 (if has_branch (branches @ tags) default_revision
                  then fetch_repository h fuel (device_path dev repo) adding None st2
                  else (case List.find (has_branch (branches @ tags)) (fallbacks h) of
                          Some fallback \<Rightarrow>
                            fetch_repository h fuel (device_path dev repo) adding (Some fallback)
                              (print (''Using fallback branch: '' @ fallback) st2)
                        | None \<Rightarrow>
                            Return (SysExit None,
                              prints
                                ([''Default revision '' @ default_revision @ '' not found in ''
                                    @ name repo @ ''. Bailing.'',
                                  ''Branches found:''] @
                                 map ref_name (branches @ tags) @
                                 [''Use the ROOMSERVICE_BRANCHES environment variable to specify a list of fallback branches.''])
                                st2))))"
proof -
  note tier1 = branch_info_branches [OF br]
  note tier2 = branch_info_tags [OF br]
  show ?thesis
    unfolding Let_def
  proof (intro conjI impI)
    assume d: "has_branch branches default_revision"
    show "process_repository h fuel dev repo st =
        fetch_repository h fuel (device_path dev repo)
          \<lparr>repository = name repo, target_path = device_path dev repo, branch = None\<rparr> None
          (prints [''Default revision: '' @ default_revision, ''Checking branch info'']
             (print (''Found repository: '' @ name repo) st))"
      using rev tier1 [OF d] d
      by (simp add: process_repository_def Let_def choose_fallback_default device_path_def)
  next
    assume a: "\<not> has_branch branches default_revision \<and>
             refs h (replace ''{/tag}'' [] (tags_url repo)) = Inr tags"
    let ?result = "branches @ tags"
    have bi: "branch_info h repo default_revision = Inr ?result"
      using a tier2 by blast
    show "process_repository h fuel dev repo st =
                 (if has_branch (branches @ tags) default_revision
                  then fetch_repository h fuel (device_path dev repo) \<lparr>repository = name repo, target_path = device_path dev repo, branch = None\<rparr> None (prints [''Default revision: '' @ default_revision, ''Checking branch info'']
             (print (''Found repository: '' @ name repo) st))
                  else (case List.find (has_branch (branches @ tags)) (fallbacks h) of
                          Some fallback \<Rightarrow>
                            fetch_repository h fuel (device_path dev repo) \<lparr>repository = name repo, target_path = device_path dev repo, branch = None\<rparr> (Some fallback)
                              (print (''Using fallback branch: '' @ fallback) (prints [''Default revision: '' @ default_revision, ''Checking branch info'']
             (print (''Found repository: '' @ name repo) st)))
                        | None \<Rightarrow>
                            Return (SysExit None,
                              prints
                                ([''Default revision '' @ default_revision @ '' not found in ''
                                    @ name repo @ ''. Bailing.'',
                                  ''Branches found:''] @
                                 map ref_name (branches @ tags) @
                                 [''Use the ROOMSERVICE_BRANCHES environment variable to specify a list of fallback branches.''])
                                (prints [''Default revision: '' @ default_revision, ''Checking branch info'']
             (print (''Found repository: '' @ name repo) st)))))"
    proof (cases "has_branch ?result default_revision")
      case True
      then show ?thesis
        using rev bi
        by (simp add: process_repository_def Let_def choose_fallback_default device_path_def)
    next
      case False
      show ?thesis
      proof (cases "List.find (has_branch ?result) (fallbacks h)")
        case None
        then show ?thesis
          using rev bi False
          by (simp add: process_repository_def Let_def choose_fallback_find device_path_def
              truthy_def)
      next
        case (Some f)
        then show ?thesis
          using rev bi False find_truthy [OF Some]
          by (simp add: process_repository_def Let_def choose_fallback_find device_path_def
              truthy_def)
      qed
    qed
  qed
qed

theorem revision_resolution_order_witness:
  "get_default_revision (fs \<lparr>fs = fs_manifest, out = []\<rparr>) = Inr ''lineage-20'' \<and>
   refs (host_widget ''staging main'') (replace ''{/branch}'' [] (branches_url cand_widget)) =
     Inr [GitRef ''main''] \<and>
   \<not> has_branch [GitRef ''main''] ''lineage-20'' \<and>
   refs (host_widget ''staging main'') (replace ''{/tag}'' [] (tags_url cand_widget)) =
     Inr [GitRef ''lineage-20-release''] \<and>
   process_repository (host_widget ''staging main'') 0 ''widget'' cand_widget
       \<lparr>fs = fs_manifest, out = []\<rparr> =
     fetch_repository (host_widget ''staging main'') 0 ''device/acme/widget''
       \<lparr>repository = ''android_device_acme_widget'', target_path = ''device/acme/widget'',
        branch = None\<rparr> (Some ''main'')
       \<lparr>fs = fs_manifest,
        out = map Print [''Found repository: android_device_acme_widget'',
          ''Default revision: lineage-20'', ''Checking branch info'',
          ''Using fallback branch: main'']\<rparr>"
proof -
  have rev: "get_default_revision (fs \<lparr>fs = fs_manifest, out = []\<rparr>) = Inr ''lineage-20''"
    by code_simp
  have br: "refs (host_widget ''staging main'') (replace ''{/branch}'' [] (branches_url cand_widget)) =
      Inr [GitRef ''main'']"
    by code_simp
  have tg: "refs (host_widget ''staging main'') (replace ''{/tag}'' [] (tags_url cand_widget)) =
      Inr [GitRef ''lineage-20-release'']"
    by code_simp
  have nb: "\<not> has_branch [GitRef ''main''] ''lineage-20''"
    by code_simp
  have nd: "\<not> has_branch ([GitRef ''main''] @ [GitRef ''lineage-20-release'']) ''lineage-20''"
    by code_simp
  have fb: "List.find (has_branch ([GitRef ''main''] @ [GitRef ''lineage-20-release'']))
      (fallbacks (host_widget ''staging main'')) = Some ''main''"
    by code_simp
  have path: "device_path ''widget'' cand_widget = ''device/acme/widget''"
    by code_simp
  have nm: "name cand_widget = ''android_device_acme_widget''"
    by (simp add: cand_widget_def)
  show ?thesis
    using revision_resolution_order [OF rev br, where dev = "''widget''" and fuel = 0
        and tags = "[GitRef ''lineage-20-release'']"]
      rev br tg nb nd fb
    by (simp add: Let_def path nm print_def prints_def)
qed

lemma select_repository_first:
  "\<forall>r \<in> set pre. re_match h (device_pattern dev) (name r) = Inr False \<Longrightarrow>
   re_match h (device_pattern dev) (name repo) = Inr True \<Longrightarrow>
   select_repository h fuel dev (pre @ repo # post) st = process_repository h fuel dev repo st"
  by (induction pre) (simp_all add: device_pattern_def)

lemma main_search:
  "\<not> truthy depsonly \<Longrightarrow> search h (search_url (device product)) = Inr repositories \<Longrightarrow>
   main h fuel product depsonly st =
     select_repository h fuel (device product) repositories
       (print (''Device '' @ device product @ '' not found. Attempting to retrieve device repository from LineageOS Github (http://github.com/LineageOS).'') st)"
  by (simp add: main_def search_url_def Let_def)

text \<open>
  C8. When the default revision and every fallback are missing from the branch and tag
  names of the accepted repository, the run prints the default revision that was tried and
  all the names, ends with \<^verbatim>\<open>sys.exit()\<close> and leaves every file as it was.
\<close>

theorem resolution_failure_writes_nothing:
  assumes mode: "\<not> truthy depsonly"
    and found: "search h (search_url (device product)) = Inr (pre @ repo # post)"
    and rejected: "\<forall>r \<in> set pre. re_match h (device_pattern (device product)) (name r) = Inr False"
    and accepted: "re_match h (device_pattern (device product)) (name repo) = Inr True"
    and rev: "get_default_revision (fs st) = Inr default_revision"
    and br: "refs h (replace ''{/branch}'' [] (branches_url repo)) = Inr branches"
    and tg: "refs h (replace ''{/tag}'' [] (tags_url repo)) = Inr tags"
    and no_default: "\<not> has_branch (branches @ tags) default_revision"
    and no_fallback: "\<forall>f \<in> set (fallbacks h). \<not> has_branch (branches @ tags) f"
  shows "main h fuel product depsonly st =
     Return (SysExit None,
       st\<lparr>out := out st @ map Print
         ([''Device '' @ device product @ '' not found. Attempting to retrieve device repository from LineageOS Github (http://github.com/LineageOS).'',
           ''Found repository: '' @ name repo,
           ''Default revision: '' @ default_revision,
           ''Checking branch info'',
           ''Default revision '' @ default_revision @ '' not found in '' @ name repo @ ''. Bailing.'',
           ''Branches found:''] @
          map ref_name (branches @ tags) @
          [''Use the ROOMSERVICE_BRANCHES environment variable to specify a list of fallback branches.''])\<rparr>)"
proof -
  let ?st1 = "print (''Device '' @ device product @ '' not found. Attempting to retrieve device repository from LineageOS Github (http://github.com/LineageOS).'') st"
  have nb: "\<not> has_branch branches default_revision"
    using no_default by (simp add: has_branch_def)
  have none: "List.find (has_branch (branches @ tags)) (fallbacks h) = None"
    using no_fallback by (simp add: find_None_iff)
  have "main h fuel product depsonly st = process_repository h fuel (device product) repo ?st1"
    using main_search [OF mode found] select_repository_first [OF rejected accepted] by simp
  also have "\<dots> = Return (SysExit None,
      prints ([''Default revision '' @ default_revision @ '' not found in '' @ name repo @ ''. Bailing.'',
               ''Branches found:''] @ map ref_name (branches @ tags) @
              [''Use the ROOMSERVICE_BRANCHES environment variable to specify a list of fallback branches.''])
        (prints [''Default revision: '' @ default_revision, ''Checking branch info'']
           (print (''Found repository: '' @ name repo) ?st1)))"
    using rev branch_info_tags [OF br nb tg] no_default none
    by (simp add: process_repository_def Let_def choose_fallback_find truthy_def)
  finally show ?thesis
    by (simp add: print_def prints_def)
qed

theorem resolution_failure_writes_nothing_witness:
  "main (host_widget ''staging lineage-20'') 0 ''lineage_widget'' None
       \<lparr>fs = fs_manifest, out = []\<rparr> =
     Return (SysExit None,
       \<lparr>fs = fs_manifest,
        out = map Print
          [''Device widget not found. Attempting to retrieve device repository from LineageOS Github (http://github.com/LineageOS).'',
           ''Found repository: android_device_acme_widget'',
           ''Default revision: lineage-20'',
           ''Checking branch info'',
           ''Default revision lineage-20 not found in android_device_acme_widget. Bailing.'',
           ''Branches found:'',
           ''main'',
           ''lineage-20-release'',
           ''Use the ROOMSERVICE_BRANCHES environment variable to specify a list of fallback branches.'']\<rparr>)"
proof -
  let ?h = "host_widget ''staging lineage-20''"
  have dev: "device ''lineage_widget'' = ''widget''"
    by code_simp
  have mode: "\<not> truthy None"
    by (simp add: truthy_def)
  have found: "search ?h (search_url (device ''lineage_widget'')) = Inr ([] @ cand_widget # [])"
    by (simp add: host_widget_def)
  have rejected: "\<forall>r \<in> set []. re_match ?h (device_pattern (device ''lineage_widget'')) (name r) = Inr False"
    by simp
  have accepted: "re_match ?h (device_pattern (device ''lineage_widget'')) (name cand_widget) = Inr True"
    by code_simp
  have rev: "get_default_revision (fs \<lparr>fs = fs_manifest, out = []\<rparr>) = Inr ''lineage-20''"
    by code_simp
  have br: "refs ?h (replace ''{/branch}'' [] (branches_url cand_widget)) = Inr [GitRef ''main'']"
    by code_simp
  have tg: "refs ?h (replace ''{/tag}'' [] (tags_url cand_widget)) = Inr [GitRef ''lineage-20-release'']"
    by code_simp
  have nd: "\<not> has_branch ([GitRef ''main''] @ [GitRef ''lineage-20-release'']) ''lineage-20''"
    by code_simp
  have fbs: "fallbacks ?h = [''staging'', ''lineage-20'']"
    by code_simp
  have nf: "\<forall>f \<in> set (fallbacks ?h).
      \<not> has_branch ([GitRef ''main''] @ [GitRef ''lineage-20-release'']) f"
    unfolding fbs by (simp add: has_branch_def)
  show ?thesis
    using resolution_failure_writes_nothing [OF mode found rejected accepted rev br tg nd nf, of 0]
    by (simp add: dev cand_widget_def)
qed

lemma fetch_repository_exit:
  "fetch_repository h fuel p a fb st = Return (e, st') \<Longrightarrow> e = SysExit None"
  by (auto simp: fetch_repository_def Let_def split: result.splits)

lemma process_repository_exit:
  "process_repository h fuel dev repo st = Return (e, st') \<Longrightarrow> e = SysExit None"
  by (auto simp: process_repository_def Let_def split: sum.splits if_splits
      dest: fetch_repository_exit)

lemma select_repository_exit:
  "select_repository h fuel dev repos st = Return (e, st') \<Longrightarrow>
     e = FallOffEnd \<or> e = SysExit None"
  by (induction repos) (auto split: sum.splits if_splits dest: process_repository_exit)

text \<open>
  C9, as amended. A run that ends reaches the end of the script, calls \<^verbatim>\<open>sys.exit()\<close>
  without a status, or calls \<^verbatim>\<open>sys.exit(1)\<close>; the last happens exactly when the search
  request fails or its answer is not JSON, outside the dependencies-only mode. Everything
  else that goes wrong is an uncaught exception.
\<close>

theorem exit_statuses:
  "(\<not> truthy depsonly \<and>
      (search h (search_url (device product)) = Inl URLError \<or>
       search h (search_url (device product)) = Inl ValueError) \<longrightarrow>
      (\<exists>st'. main h fuel product depsonly st = Return (SysExit (Some 1), st'))) \<and>
   (main h fuel product depsonly st = Return (e, st') \<longrightarrow>
      (e = FallOffEnd \<or> e = SysExit None \<or> e = SysExit (Some 1)) \<and>
      (e = SysExit (Some 1) \<longleftrightarrow>
         \<not> truthy depsonly \<and>
         (search h (search_url (device product)) = Inl URLError \<or>
          search h (search_url (device product)) = Inl ValueError)))"
proof (intro conjI impI)
  assume "\<not> truthy depsonly \<and>
      (search h (search_url (device product)) = Inl URLError \<or>
       search h (search_url (device product)) = Inl ValueError)"
  then show "\<exists>st'. main h fuel product depsonly st = Return (SysExit (Some 1), st')"
    by (auto simp: main_def search_url_def Let_def)
next
  assume run: "main h fuel product depsonly st = Return (e, st')"
  show "e = FallOffEnd \<or> e = SysExit None \<or> e = SysExit (Some 1)"
    using run
    by (auto simp: main_def Let_def split: if_splits sum.splits option.splits result.splits
        dest: select_repository_exit)
  show "e = SysExit (Some 1) \<longleftrightarrow>
         \<not> truthy depsonly \<and>
         (search h (search_url (device product)) = Inl URLError \<or>
          search h (search_url (device product)) = Inl ValueError)"
    using run
    by (auto simp: main_def search_url_def Let_def split: if_splits sum.splits option.splits result.splits
        dest: select_repository_exit)
qed

theorem exit_statuses_witness:
  "\<not> truthy None \<and>
   search host_down (search_url (device ''lineage_widget'')) = Inl URLError \<and>
   main host_down 0 ''lineage_widget'' None \<lparr>fs = fs_empty, out = []\<rparr> =
     Return (SysExit (Some 1),
       \<lparr>fs = fs_empty,
        out = [Print ''Device widget not found. Attempting to retrieve device repository from LineageOS Github (http://github.com/LineageOS).'',
               Print ''Failed to search GitHub'']\<rparr>)"
proof -
  have dev: "device ''lineage_widget'' = ''widget''"
    by code_simp
  have run: "main host_down 0 ''lineage_widget'' None \<lparr>fs = fs_empty, out = []\<rparr> =
     Return (SysExit (Some 1),
       \<lparr>fs = fs_empty,
        out = [Print ''Device widget not found. Attempting to retrieve device repository from LineageOS Github (http://github.com/LineageOS).'',
               Print ''Failed to search GitHub'']\<rparr>)"
    by (simp add: main_def dev truthy_def host_down_def Let_def print_def)
  show ?thesis
    using run exit_statuses [of None host_down "''lineage_widget''" 0
        "\<lparr>fs = fs_empty, out = []\<rparr>" "SysExit (Some 1)"
        "\<lparr>fs = fs_empty,
        out = [Print ''Device widget not found. Attempting to retrieve device repository from LineageOS Github (http://github.com/LineageOS).'',
               Print ''Failed to search GitHub'']\<rparr>"]
    by (simp add: truthy_def host_down_def)
qed

text \<open>
  C9 as stated fails when the search request cannot be made: the script exits with
  status 1.
\<close>

theorem exit_statuses_counterexample:
  "main host_down 0 ''lineage_widget'' None \<lparr>fs = fs_empty, out = []\<rparr> =
     Return (SysExit (Some 1),
       \<lparr>fs = fs_empty,
        out = [Print ''Device widget not found. Attempting to retrieve device repository from LineageOS Github (http://github.com/LineageOS).'',
               Print ''Failed to search GitHub'']\<rparr>)"
proof -
  have dev: "device ''lineage_widget'' = ''widget''"
    by code_simp
  show ?thesis
    by (simp add: main_def dev truthy_def host_down_def Let_def print_def)
qed













end
